theory Spec2Isabelle
  imports Main "HOL-Library.Product_Lexorder"
begin

section \<open>FitTrack authentication core: data model\<close>

text \<open>
  Python strings whose characters the code inspects (the password and the stored hash:
  \<open>len\<close>, the regular-expression classes, the UTF-8 encoding) are lists of Unicode code
  points. Strings that the code only compares, stores or puts into a result (e-mail,
  status, role, messages, identifiers) are HOL strings.
\<close>

type_synonym pystr = "nat list"

type_synonym bytes = "nat list"

text \<open>
  Exceptions are values. \<open>HTTPException status_code detail headers\<close> is FastAPI's;
  the other two are what \<open>str.encode\<close>, \<open>bcrypt\<close> and \<open>date.fromisoformat\<close> raise.
\<close>

datatype error =
    UnicodeEncodeError
  | ValueError
  | HTTPException int string "(string \<times> string) list"

text \<open>
  The column \<open>user_id\<close> is a \<open>String(36)\<close>, so a loaded row holds a \<open>str\<close>; the token
  functions are annotated with \<open>UUID\<close>, and \<open>login\<close> tests \<open>isinstance(user.user_id, str)\<close>.
  Both run-time types are kept apart; each value carries its canonical text.
\<close>

datatype user_id_value = IdStr string | IdUUID string

fun str_of :: "user_id_value \<Rightarrow> string" where
  "str_of (IdStr s) = s"
| "str_of (IdUUID s) = s"

fun isinstance_str :: "user_id_value \<Rightarrow> bool" where
  "isinstance_str (IdStr s) = True"
| "isinstance_str (IdUUID s) = False"

text \<open>Timestamps are microseconds since the epoch (the resolution of \<open>datetime\<close>).\<close>

type_synonym datetime = int

type_synonym timedelta = int

definition timedelta_minutes :: "int \<Rightarrow> timedelta" where
  "timedelta_minutes m = m * 60000000"

definition timedelta_days :: "int \<Rightarrow> timedelta" where
  "timedelta_days d = d * 86400000000"

record user =
  user_id :: user_id_value
  email :: string
  password_hash :: pystr
  email_verified :: bool
  email_verified_at :: "datetime option"
  status :: string
  role :: string
  premium_expires_at :: "datetime option"
  point_balance :: int
  last_login_at :: "datetime option"

text \<open>A \<open>datetime.date\<close>.\<close>

record date =
  year :: int
  month :: int
  day :: int

text \<open>
  The claims dictionary handed to \<open>jwt.encode\<close>; keys that only one kind of token has are
  optional. Signing and the wire format belong to the library: a token is modelled by
  the claims it carries.
\<close>

record payload =
  sub :: "string option"
  claim_email :: "string option"
  claim_role :: "string option"
  claim_type :: "string option"
  exp :: datetime
  iat :: datetime

subsection \<open>models/user.py\<close>

definition verify_email :: "datetime \<Rightarrow> user \<Rightarrow> user" where
  "verify_email now u =
     (let u1 = u\<lparr>email_verified := True\<rparr>;
          u2 = u1\<lparr>email_verified_at := Some now\<rparr>
      in if status u2 = ''pending'' then u2\<lparr>status := ''active''\<rparr> else u2)"

definition is_active :: "user \<Rightarrow> bool" where
  "is_active u = (status u = ''active'')"

section \<open>security/authentication.py\<close>

definition BCRYPT_ROUNDS :: nat where
  "BCRYPT_ROUNDS = 12"

definition ACCESS_TOKEN_EXPIRE_MINUTES :: int where
  "ACCESS_TOKEN_EXPIRE_MINUTES = 30"

definition REFRESH_TOKEN_EXPIRE_DAYS :: int where
  "REFRESH_TOKEN_EXPIRE_DAYS = 7"

text \<open>
  What the code takes from its libraries and cannot be read in the repository:
  the Unicode class of decimal digits beyond ASCII that \<open>\d\<close> matches, \<open>bcrypt.checkpw\<close>,
  \<open>bcrypt.hashpw\<close> with a fresh salt (decoded to text), \<open>date.fromisoformat\<close>,
  \<open>str.upper\<close>, and \<open>jwt.decode\<close> with the public key (\<open>None\<close> where it raises
  \<open>JWTError\<close>). Each may raise where the library may.
\<close>

record env =
  unicode_Nd :: "nat \<Rightarrow> bool"
  checkpw :: "bytes \<Rightarrow> bytes \<Rightarrow> error + bool"
  hashpw :: "bytes \<Rightarrow> error + pystr"
  fromisoformat :: "string \<Rightarrow> error + date"
  upper :: "string \<Rightarrow> string"
  jwt_decode :: "payload \<Rightarrow> payload option"

subsection \<open>UTF-8 encoding of a str\<close>

definition is_surrogate :: "nat \<Rightarrow> bool" where
  "is_surrogate c = (55296 \<le> c \<and> c \<le> 57343)"

definition utf8_char :: "nat \<Rightarrow> bytes" where
  "utf8_char c =
     (if c < 128 then [c]
      else if c < 2048 then [192 + c div 64, 128 + c mod 64]
      else if c < 65536 then [224 + c div 4096, 128 + (c div 64) mod 64, 128 + c mod 64]
      else [240 + c div 262144, 128 + (c div 4096) mod 64,
            128 + (c div 64) mod 64, 128 + c mod 64])"

text \<open>\<open>s.encode("utf-8")\<close>: a lone surrogate raises \<open>UnicodeEncodeError\<close>.\<close>

definition encode_utf8 :: "pystr \<Rightarrow> error + bytes" where
  "encode_utf8 s =
     (if \<exists>c \<in> set s. is_surrogate c then Inl UnicodeEncodeError
      else Inr (concat (map utf8_char s)))"

subsection \<open>Password hashing\<close>

definition hash_password :: "env \<Rightarrow> pystr \<Rightarrow> error + pystr" where
  "hash_password E password =
     (case encode_utf8 password of
        Inl e \<Rightarrow> Inl e
      | Inr password_bytes \<Rightarrow> hashpw E password_bytes)"

definition verify_password :: "env \<Rightarrow> pystr \<Rightarrow> pystr \<Rightarrow> error + bool" where
  "verify_password E plain_password hashed_password =
     (case encode_utf8 plain_password of
        Inl e \<Rightarrow> Inl e
      | Inr password_bytes \<Rightarrow>
          (case encode_utf8 hashed_password of
             Inl e \<Rightarrow> Inl e
           | Inr hashed_bytes \<Rightarrow> checkpw E password_bytes hashed_bytes))"

subsection \<open>Password policy\<close>

record validation =
  valid :: bool
  vmessage :: string

text \<open>\<open>re.search(r"[A-Z]", s)\<close> and its siblings: some character of \<open>s\<close> is in the class.\<close>

definition re_upper :: "nat \<Rightarrow> bool" where
  "re_upper c = (65 \<le> c \<and> c \<le> 90)"

definition re_lower :: "nat \<Rightarrow> bool" where
  "re_lower c = (97 \<le> c \<and> c \<le> 122)"

text \<open>\<open>\d\<close> on a \<open>str\<close> pattern: \<open>[0-9]\<close> and every other Unicode decimal digit.\<close>

definition re_digit :: "env \<Rightarrow> nat \<Rightarrow> bool" where
  "re_digit E c = ((48 \<le> c \<and> c \<le> 57) \<or> unicode_Nd E c)"

text \<open>The class \<open>[!@#$%^&*(),.?\":{}|<>]\<close>; in it \<open>\"\<close> is the double quote.\<close>

definition SPECIAL_CHARACTERS :: "nat list" where
  "SPECIAL_CHARACTERS =
     [33, 64, 35, 36, 37, 94, 38, 42, 40, 41, 44, 46, 63, 34, 58, 123, 125, 124, 60, 62]"

definition re_special :: "nat \<Rightarrow> bool" where
  "re_special c = (c \<in> set SPECIAL_CHARACTERS)"

definition re_search :: "(nat \<Rightarrow> bool) \<Rightarrow> pystr \<Rightarrow> bool" where
  "re_search cls s = list_ex cls s"

definition validate_password_strength :: "env \<Rightarrow> pystr \<Rightarrow> validation" where
  "validate_password_strength E password =
     (if length password < 12 then
        \<lparr>valid = False, vmessage = ''Password must be at least 12 characters long''\<rparr>
      else if \<not> re_search re_upper password then
        \<lparr>valid = False, vmessage = ''Password must contain at least one uppercase letter''\<rparr>
      else if \<not> re_search re_lower password then
        \<lparr>valid = False, vmessage = ''Password must contain at least one lowercase letter''\<rparr>
      else if \<not> re_search (re_digit E) password then
        \<lparr>valid = False, vmessage = ''Password must contain at least one digit''\<rparr>
      else if \<not> re_search re_special password then
        \<lparr>valid = False, vmessage = ''Password must contain at least one special character''\<rparr>
      else \<lparr>valid = True, vmessage = ''Password is strong''\<rparr>)"

subsection \<open>Tokens\<close>

definition create_access_token ::
  "datetime \<Rightarrow> user_id_value \<Rightarrow> string \<Rightarrow> string \<Rightarrow> timedelta option \<Rightarrow> payload" where
  "create_access_token now uid em rl expires_delta =
     (let delta = (case expires_delta of
                     None \<Rightarrow> timedelta_minutes ACCESS_TOKEN_EXPIRE_MINUTES
                   | Some d \<Rightarrow> d);
          expire = now + delta
      in \<lparr>sub = Some (str_of uid), claim_email = Some em, claim_role = Some rl,
          claim_type = None, exp = expire, iat = now\<rparr>)"

definition create_refresh_token :: "datetime \<Rightarrow> user_id_value \<Rightarrow> payload" where
  "create_refresh_token now uid =
     (let expires_delta = timedelta_days REFRESH_TOKEN_EXPIRE_DAYS;
          expire = now + expires_delta
      in \<lparr>sub = Some (str_of uid), claim_email = None, claim_role = None,
          claim_type = Some ''refresh'', exp = expire, iat = now\<rparr>)"

definition decode_token :: "env \<Rightarrow> payload \<Rightarrow> payload option" where
  "decode_token E token = jwt_decode E token"

section \<open>services/auth_service.py\<close>

definition INELIGIBLE_STATES :: "string set" where
  "INELIGIBLE_STATES = {''NY'', ''FL'', ''RI''}"

definition MINIMUM_AGE :: int where
  "MINIMUM_AGE = 18"

text \<open>
  The SQLAlchemy session: the rows a query sees, in order, with the objects added and
  not yet committed at the end. \<open>query(User).filter(c).first()\<close> is the first row
  satisfying \<open>c\<close>; an attribute assignment on a loaded object changes that row.
\<close>

type_synonym session = "user list"

definition query_first :: "(user \<Rightarrow> bool) \<Rightarrow> session \<Rightarrow> user option" where
  "query_first c db = find c db"

definition add :: "session \<Rightarrow> user \<Rightarrow> session" where
  "add db u = db @ [u]"

fun update_first :: "(user \<Rightarrow> bool) \<Rightarrow> (user \<Rightarrow> user) \<Rightarrow> session \<Rightarrow> session" where
  "update_first c f [] = []"
| "update_first c f (u # db) = (if c u then f u # db else u # update_first c f db)"

text \<open>
  The result dictionaries of the service: \<open>success\<close> and \<open>message\<close> always, the other
  keys only on the success of the operation that sets them.
\<close>

record user_summary =
  summary_user_id :: user_id_value
  summary_email :: string
  summary_role :: string
  summary_point_balance :: int

record result =
  success :: bool
  message :: string
  result_user_id :: "user_id_value option"
  result_email :: "string option"
  access_token :: "payload option"
  refresh_token :: "payload option"
  result_user :: "user_summary option"

definition failure :: "string \<Rightarrow> result" where
  "failure msg =
     \<lparr>success = False, message = msg, result_user_id = None, result_email = None,
      access_token = None, refresh_token = None, result_user = None\<rparr>"

text \<open>\<open>_calculate_age\<close>, with \<open>date.today()\<close> as the argument \<open>today\<close>.\<close>

definition calculate_age :: "date \<Rightarrow> date \<Rightarrow> int" where
  "calculate_age today birth_date =
     (let age = year today - year birth_date
      in if (month today, day today) < (month birth_date, day birth_date)
         then age - 1 else age)"

text \<open>
  \<open>register_user\<close>. \<open>fresh\<close> is the text of the UUID that \<open>uuid4()\<close> returns. The
  message of the age check is the f-string with \<open>MINIMUM_AGE\<close> = 18 filled in.
\<close>

definition register_user ::
  "env \<Rightarrow> date \<Rightarrow> string \<Rightarrow> session \<Rightarrow> string \<Rightarrow> pystr \<Rightarrow> string \<Rightarrow> string
     \<Rightarrow> (error + result) \<times> session" where
  "register_user E today fresh db em password date_of_birth state_of_residence =
     (case query_first (\<lambda>u. email u = em) db of
        Some existing_user \<Rightarrow> (Inr (failure ''Email address already exists''), db)
      | None \<Rightarrow>
          (let password_validation = validate_password_strength E password
           in if \<not> valid password_validation
              then (Inr (failure (vmessage password_validation)), db)
              else
                (case fromisoformat E date_of_birth of
                   Inl e \<Rightarrow> (Inl e, db)
                 | Inr dob \<Rightarrow>
                     (let age = calculate_age today dob
                      in if age < MINIMUM_AGE
                         then (Inr (failure ''You must be at least 18 years old to register''), db)
                         else if upper E state_of_residence \<in> INELIGIBLE_STATES
                         then (Inr (failure (''Registration is not available in ''
                                  @ state_of_residence @ '' at this time'')), db)
                         else
                           (case hash_password E password of
                              Inl e \<Rightarrow> (Inl e, db)
                            | Inr h \<Rightarrow>
                                (let u = \<lparr>user_id = IdStr fresh, email = em,
                                          password_hash = h, email_verified = False,
                                          email_verified_at = None, status = ''pending'',
                                          role = ''user'', premium_expires_at = None,
                                          point_balance = 0, last_login_at = None\<rparr>
                                 in (Inr \<lparr>success = True,
                                          message = ''User registered successfully. Please verify your email.'',
                                          result_user_id = Some (user_id u),
                                          result_email = Some (email u),
                                          access_token = None, refresh_token = None,
                                          result_user = None\<rparr>,
                                     add db u)))))))"

text \<open>
  The subject that \<open>login\<close> and \<open>refresh_access_token\<close> hand to the token functions:
  \<open>uuid4() if isinstance(user.user_id, str) else user.user_id\<close>, where \<open>fresh\<close> is the
  text of the UUID that this call of \<open>uuid4()\<close> returns.
\<close>

definition token_subject :: "string \<Rightarrow> user \<Rightarrow> user_id_value" where
  "token_subject fresh u = (if isinstance_str (user_id u) then IdUUID fresh else user_id u)"

text \<open>
  \<open>login\<close>. \<open>now\<close> is what \<open>datetime.now\<close> returns (read three times in the source, for
  the login timestamp and in each token function); \<open>fresh1\<close> and \<open>fresh2\<close> are the
  UUIDs of the first and the second call of \<open>uuid4()\<close>.
\<close>

definition login ::
  "env \<Rightarrow> datetime \<Rightarrow> string \<Rightarrow> string \<Rightarrow> session \<Rightarrow> string \<Rightarrow> pystr
     \<Rightarrow> (error + result) \<times> session" where
  "login E now fresh1 fresh2 db em password =
     (case query_first (\<lambda>u. email u = em) db of
        None \<Rightarrow> (Inr (failure ''Invalid email or password''), db)
      | Some u \<Rightarrow>
          (case verify_password E password (password_hash u) of
             Inl e \<Rightarrow> (Inl e, db)
           | Inr ok \<Rightarrow>
               if \<not> ok then (Inr (failure ''Invalid email or password''), db)
               else if \<not> email_verified u
               then (Inr (failure ''Please verify your email address before logging in''), db)
               else if status u = ''suspended''
               then (Inr (failure ''Your account has been suspended. Please contact support.''), db)
               else if status u = ''banned''
               then (Inr (failure ''Your account has been banned.''), db)
               else if status u \<noteq> ''active''
               then (Inr (failure ''Your account is not active. Please verify your email.''), db)
               else
                 (let u' = u\<lparr>last_login_at := Some now\<rparr>;
                      access = create_access_token now (token_subject fresh1 u')
                                 (email u') (role u') None;
                      refresh = create_refresh_token now (token_subject fresh2 u')
                  in (Inr \<lparr>success = True, message = ''Login successful'',
                           result_user_id = None, result_email = None,
                           access_token = Some access, refresh_token = Some refresh,
                           result_user = Some \<lparr>summary_user_id = user_id u',
                                                summary_email = email u',
                                                summary_role = role u',
                                                summary_point_balance = point_balance u'\<rparr>\<rparr>,
                      update_first (\<lambda>u. email u = em) (\<lambda>_. u') db))))"

text \<open>\<open>refresh_access_token\<close>; \<open>not user_id\<close> holds for a missing and for an empty subject.\<close>

definition refresh_access_token ::
  "env \<Rightarrow> datetime \<Rightarrow> string \<Rightarrow> session \<Rightarrow> payload \<Rightarrow> result" where
  "refresh_access_token E now fresh db refresh_tok =
     (case decode_token E refresh_tok of
        None \<Rightarrow> failure ''Invalid or expired refresh token''
      | Some pl \<Rightarrow>
          (case sub pl of
             None \<Rightarrow> failure ''Invalid token payload''
           | Some uid \<Rightarrow>
               if uid = [] then failure ''Invalid token payload''
               else
                 (case query_first (\<lambda>u. str_of (user_id u) = uid) db of
                    None \<Rightarrow> failure ''User not found''
                  | Some u \<Rightarrow>
                      if status u \<noteq> ''active'' then failure ''User account is not active''
                      else
                        (let new_access_token =
                               create_access_token now (token_subject fresh u)
                                 (email u) (role u) None
                         in \<lparr>success = True, message = ''Access token refreshed'',
                             result_user_id = None, result_email = None,
                             access_token = Some new_access_token, refresh_token = None,
                             result_user = None\<rparr>))))"

section \<open>security/authorization.py\<close>

definition HTTP_401_UNAUTHORIZED :: int where
  "HTTP_401_UNAUTHORIZED = 401"

definition HTTP_403_FORBIDDEN :: int where
  "HTTP_403_FORBIDDEN = 403"

fun join :: "string \<Rightarrow> string list \<Rightarrow> string" where
  "join sep [] = []"
| "join sep [x] = x"
| "join sep (x # y # ys) = x @ sep @ join sep (y # ys)"

definition get_current_user :: "env \<Rightarrow> session \<Rightarrow> payload \<Rightarrow> error + user" where
  "get_current_user E db token =
     (case decode_token E token of
        None \<Rightarrow> Inl (HTTPException HTTP_401_UNAUTHORIZED ''Invalid or expired credentials''
                      [(''WWW-Authenticate'', ''Bearer'')])
      | Some pl \<Rightarrow>
          (case sub pl of
             None \<Rightarrow> Inl (HTTPException HTTP_401_UNAUTHORIZED ''Invalid token payload''
                           [(''WWW-Authenticate'', ''Bearer'')])
           | Some uid \<Rightarrow>
               if uid = []
               then Inl (HTTPException HTTP_401_UNAUTHORIZED ''Invalid token payload''
                           [(''WWW-Authenticate'', ''Bearer'')])
               else
                 (case query_first (\<lambda>u. str_of (user_id u) = uid) db of
                    None \<Rightarrow> Inl (HTTPException HTTP_401_UNAUTHORIZED ''User not found''
                                  [(''WWW-Authenticate'', ''Bearer'')])
                  | Some u \<Rightarrow>
                      if status u \<noteq> ''active''
                      then Inl (HTTPException HTTP_403_FORBIDDEN
                                  (''Account is '' @ status u @ ''. Please contact support.'') [])
                      else Inr u)))"

text \<open>\<open>require_role(*allowed_roles)\<close> returns \<open>role_checker\<close>; applied to the current user:\<close>

definition require_role :: "string list \<Rightarrow> user \<Rightarrow> error + user" where
  "require_role allowed_roles current_user =
     (if role current_user \<notin> set allowed_roles
      then Inl (HTTPException HTTP_403_FORBIDDEN
                  (''Insufficient permissions. Required role: '' @ join '', '' allowed_roles) [])
      else Inr current_user)"

definition get_current_admin :: "user \<Rightarrow> error + user" where
  "get_current_admin current_user =
     (if role current_user \<noteq> ''admin''
      then Inl (HTTPException HTTP_403_FORBIDDEN ''Admin access required'' [])
      else Inr current_user)"

section \<open>Vocabulary of the specification\<close>

text \<open>
  Calendar notions that the specification uses to speak about the age check and that
  the code itself never computes: the order of dates (\<open>date.__le__\<close>), the date
  \<open>n\<close> years before another (same month and day), and the day after a date
  (\<open>d + timedelta(days=1)\<close>).
\<close>

definition date_tuple :: "date \<Rightarrow> int \<times> int \<times> int" where
  "date_tuple d = (year d, month d, day d)"

definition is_leap :: "int \<Rightarrow> bool" where
  "is_leap y = (y mod 4 = 0 \<and> (y mod 100 \<noteq> 0 \<or> y mod 400 = 0))"

definition days_in_month :: "int \<Rightarrow> int \<Rightarrow> int" where
  "days_in_month y m =
     (if m = 2 then (if is_leap y then 29 else 28)
      else if m \<in> {4, 6, 9, 11} then 30 else 31)"

definition valid_date :: "date \<Rightarrow> bool" where
  "valid_date d =
     (1 \<le> year d \<and> year d \<le> 9999 \<and> 1 \<le> month d \<and> month d \<le> 12 \<and>
      1 \<le> day d \<and> day d \<le> days_in_month (year d) (month d))"

definition years_before :: "int \<Rightarrow> date \<Rightarrow> date" where
  "years_before n d = d\<lparr>year := year d - n\<rparr>"

definition next_day :: "date \<Rightarrow> date" where
  "next_day d =
     (if day d < days_in_month (year d) (month d) then d\<lparr>day := day d + 1\<rparr>
      else if month d < 12 then d\<lparr>month := month d + 1, day := 1\<rparr>
      else \<lparr>year = year d + 1, month = 1, day = 1\<rparr>)"

text \<open>
  The status gate of \<open>login\<close> in the words of the specification: banned first, then
  suspended, then the generic case for every other status that is not active.
\<close>

definition status_gate_spec :: "string \<Rightarrow> string" where
  "status_gate_spec st =
     (if st = ''banned'' then ''Your account has been banned.''
      else if st = ''suspended''
      then ''Your account has been suspended. Please contact support.''
      else ''Your account is not active. Please verify your email.'')"

text \<open>
  The password policy in the words of the specification: five rules in a fixed order,
  each with its message; the first rule that fails gives the reason.
\<close>

definition policy_rules_spec :: "env \<Rightarrow> ((pystr \<Rightarrow> bool) \<times> string) list" where
  "policy_rules_spec E =
     [(\<lambda>p. 12 \<le> length p, ''Password must be at least 12 characters long''),
      (\<lambda>p. \<exists>c \<in> set p. 65 \<le> c \<and> c \<le> 90,
       ''Password must contain at least one uppercase letter''),
      (\<lambda>p. \<exists>c \<in> set p. 97 \<le> c \<and> c \<le> 122,
       ''Password must contain at least one lowercase letter''),
      (\<lambda>p. \<exists>c \<in> set p. (48 \<le> c \<and> c \<le> 57) \<or> unicode_Nd E c,
       ''Password must contain at least one digit''),
      (\<lambda>p. \<exists>c \<in> set p. c \<in> set SPECIAL_CHARACTERS,
       ''Password must contain at least one special character'')]"

fun first_failure_spec :: "(('a \<Rightarrow> bool) \<times> string) list \<Rightarrow> 'a \<Rightarrow> string option" where
  "first_failure_spec [] p = None"
| "first_failure_spec ((ok, msg) # rules) p =
     (if ok p then first_failure_spec rules p else Some msg)"

text \<open>The kind of an error: the status code of an \<open>HTTPException\<close>.\<close>

fun status_code :: "error \<Rightarrow> int option" where
  "status_code (HTTPException c d h) = Some c"
| "status_code e = None"

text \<open>The subject of the access token and of the refresh token in a result.\<close>

definition access_subject :: "error + result \<Rightarrow> string option" where
  "access_subject r =
     (case r of
        Inl e \<Rightarrow> None
      | Inr res \<Rightarrow> (case access_token res of None \<Rightarrow> None | Some t \<Rightarrow> sub t))"

definition refresh_subject :: "error + result \<Rightarrow> string option" where
  "refresh_subject r =
     (case r of
        Inl e \<Rightarrow> None
      | Inr res \<Rightarrow> (case refresh_token res of None \<Rightarrow> None | Some t \<Rightarrow> sub t))"

section \<open>An example environment\<close>

text \<open>
  Concrete stand-ins for the libraries, used only to run the model on examples. The
  hash is the text \<open>$2b$\<close> followed by the password, and checking a hash without that
  prefix raises \<open>ValueError\<close>, as \<open>bcrypt\<close> does for an invalid salt. The date parser
  reads \<open>YYYY-MM-DD\<close> only, the extra decimal digits are the Arabic-Indic ones, upper
  case is that of ASCII, and every token decodes.
\<close>

definition example_prefix :: "nat list" where
  "example_prefix = [36, 50, 98, 36]"

definition example_checkpw :: "bytes \<Rightarrow> bytes \<Rightarrow> error + bool" where
  "example_checkpw pw h =
     (if take 4 h = example_prefix then Inr (drop 4 h = pw) else Inl ValueError)"

definition example_hashpw :: "bytes \<Rightarrow> error + pystr" where
  "example_hashpw pw = Inr (example_prefix @ pw)"

definition digit_value :: "char \<Rightarrow> int option" where
  "digit_value c =
     (let n = (of_char c :: nat) in if 48 \<le> n \<and> n \<le> 57 then Some (int n - 48) else None)"

definition example_fromisoformat :: "string \<Rightarrow> error + date" where
  "example_fromisoformat s =
     (if length s \<noteq> 10 \<or> s ! 4 \<noteq> CHR ''-'' \<or> s ! 7 \<noteq> CHR ''-'' then Inl ValueError
      else
        (case map digit_value [s ! 0, s ! 1, s ! 2, s ! 3, s ! 5, s ! 6, s ! 8, s ! 9] of
           [Some a, Some b, Some c, Some d, Some e, Some f, Some g, Some h] \<Rightarrow>
             (let dt = \<lparr>year = 1000 * a + 100 * b + 10 * c + d,
                        month = 10 * e + f, day = 10 * g + h\<rparr>
              in if valid_date dt then Inr dt else Inl ValueError)
         | _ \<Rightarrow> Inl ValueError))"

definition ascii_upper :: "string \<Rightarrow> string" where
  "ascii_upper s =
     map (\<lambda>c. let n = (of_char c :: nat)
               in if 97 \<le> n \<and> n \<le> 122 then char_of (n - 32) else c) s"

definition example_env :: env where
  "example_env =
     \<lparr>unicode_Nd = (\<lambda>c. 1632 \<le> c \<and> c \<le> 1641),
      checkpw = example_checkpw,
      hashpw = example_hashpw,
      fromisoformat = example_fromisoformat,
      upper = ascii_upper,
      jwt_decode = Some\<rparr>"

text \<open>The password \<open>SecureP@ssw0rd123!\<close> of the test suite, as code points.\<close>

definition example_password :: pystr where
  "example_password =
     [83, 101, 99, 117, 114, 101, 80, 64, 115, 115, 119, 48, 114, 100, 49, 50, 51, 33]"

definition example_hash :: pystr where
  "example_hash = example_prefix @ example_password"

definition example_user :: user where
  "example_user =
     \<lparr>user_id = IdStr ''11111111-1111-4111-8111-111111111111'',
      email = ''user@example.com'',
      password_hash = example_hash,
      email_verified = True, email_verified_at = Some 0,
      status = ''active'', role = ''user'', premium_expires_at = None,
      point_balance = 500, last_login_at = None\<rparr>"

section \<open>Auxiliary facts\<close>

lemma re_search_iff: "re_search cls s \<longleftrightarrow> (\<exists>c \<in> set s. cls c)"
  by (simp add: re_search_def list_ex_iff)

lemma example_password_valid:
  "valid (validate_password_strength example_env example_password)"
  by (simp add: validate_password_strength_def re_search_iff re_upper_def re_lower_def
      re_digit_def re_special_def example_password_def SPECIAL_CHARACTERS_def)

lemma example_password_encodes: "encode_utf8 example_password = Inr example_password"
  by (simp add: encode_utf8_def is_surrogate_def utf8_char_def example_password_def)

lemma example_hash_encodes: "encode_utf8 example_hash = Inr example_hash"
  by (simp add: encode_utf8_def is_surrogate_def utf8_char_def example_password_def
      example_prefix_def example_hash_def)

lemma example_checkpw_hash: "example_checkpw example_password example_hash = Inr True"
  by (simp add: example_checkpw_def example_hash_def example_prefix_def)

lemma example_password_verifies:
  "verify_password example_env example_password example_hash = Inr True"
  by (simp add: verify_password_def example_password_encodes example_hash_encodes
      example_env_def example_checkpw_hash)

lemma token_subject_of_stored_row:
  "isinstance_str (user_id u) \<Longrightarrow> token_subject fresh u = IdUUID fresh"
  by (simp add: token_subject_def)

lemma calculate_age_minimum:
  "(MINIMUM_AGE \<le> calculate_age today dob) =
     (date_tuple dob \<le> date_tuple (years_before MINIMUM_AGE today))"
  by (auto simp: calculate_age_def Let_def date_tuple_def years_before_def)

lemma calculate_age_next_day:
  "calculate_age today (next_day (years_before MINIMUM_AGE today)) < MINIMUM_AGE"
  by (auto simp: calculate_age_def Let_def years_before_def next_day_def)

lemma example_dates:
  "example_fromisoformat ''1990-01-15'' = Inr \<lparr>year = 1990, month = 1, day = 15\<rparr>"
  "example_fromisoformat ''2010-01-15'' = Inr \<lparr>year = 2010, month = 1, day = 15\<rparr>"
  "example_fromisoformat ''2006-02-28'' = Inr \<lparr>year = 2006, month = 2, day = 28\<rparr>"
  "example_fromisoformat ''2006-03-01'' = Inr \<lparr>year = 2006, month = 3, day = 1\<rparr>"
  by (simp_all add: example_fromisoformat_def digit_value_def valid_date_def
      days_in_month_def is_leap_def)

lemma example_queries:
  "query_first (\<lambda>u. email u = ''user@example.com'') [example_user] = Some example_user"
  "query_first (\<lambda>u. email u = ''new@example.com'') [example_user] = None"
  "query_first (\<lambda>u. email u = ''nobody@example.com'') [example_user] = None"
  by (simp_all add: query_first_def example_user_def)

lemma example_env_fields:
  "fromisoformat example_env = example_fromisoformat"
  "upper example_env = ascii_upper"
  "checkpw example_env = example_checkpw"
  "hashpw example_env = example_hashpw"
  by (simp_all add: example_env_def)

lemma example_upper: "ascii_upper ''TX'' = ''TX''" "ascii_upper ''ny'' = ''NY''"
  by code_simp+

section \<open>Token subjects\<close>

text \<open>
  Claim C1: after a successful login or refresh, the \<open>sub\<close> of each issued token is the
  stored \<open>user_id\<close> of the principal. The code does not do this for a stored row: its
  \<open>user_id\<close> is a \<open>str\<close>, so the subject is a new \<open>uuid4()\<close>. Run on the example row
  \<open>11111111-...\<close>, \<open>login\<close> issues an access token for \<open>2222...\<close> and a refresh token for
  \<open>3333...\<close>, \<open>refresh_access_token\<close> issues an access token for \<open>2222...\<close>, and
  \<open>get_current_user\<close> does not find the principal of the access token that \<open>login\<close> issued.
\<close>

theorem login_token_subject_is_fresh_uuid:
  "access_subject (fst (login example_env 0 ''22222222-2222-4222-8222-222222222222''
       ''33333333-3333-4333-8333-333333333333'' [example_user] ''user@example.com''
       example_password))
     = Some ''22222222-2222-4222-8222-222222222222'' \<and>
   refresh_subject (fst (login example_env 0 ''22222222-2222-4222-8222-222222222222''
       ''33333333-3333-4333-8333-333333333333'' [example_user] ''user@example.com''
       example_password))
     = Some ''33333333-3333-4333-8333-333333333333'' \<and>
   access_subject (Inr (refresh_access_token example_env 0
       ''22222222-2222-4222-8222-222222222222'' [example_user]
       (create_refresh_token 0 (user_id example_user))))
     = Some ''22222222-2222-4222-8222-222222222222'' \<and>
   str_of (user_id example_user) = ''11111111-1111-4111-8111-111111111111'' \<and>
   get_current_user example_env [example_user]
       (create_access_token 0 (IdUUID ''22222222-2222-4222-8222-222222222222'')
          ''user@example.com'' ''user'' None)
     = Inl (HTTPException 401 ''User not found'' [(''WWW-Authenticate'', ''Bearer'')])"
proof -
  have found: "query_first (\<lambda>u. email u = ''user@example.com'') [example_user]
                 = Some example_user"
    by (simp add: query_first_def example_user_def)
  have hash: "password_hash example_user = example_hash"
    by (simp add: example_user_def)
  have fields: "email_verified example_user" "status example_user = ''active''"
    "user_id example_user = IdStr ''11111111-1111-4111-8111-111111111111''"
    by (simp_all add: example_user_def)
  have l1: "access_subject (fst (login example_env 0 ''22222222-2222-4222-8222-222222222222''
       ''33333333-3333-4333-8333-333333333333'' [example_user] ''user@example.com''
       example_password))
     = Some ''22222222-2222-4222-8222-222222222222''"
    by (simp add: login_def found hash example_password_verifies fields Let_def
        access_subject_def create_access_token_def token_subject_def)
  have l2: "refresh_subject (fst (login example_env 0 ''22222222-2222-4222-8222-222222222222''
       ''33333333-3333-4333-8333-333333333333'' [example_user] ''user@example.com''
       example_password))
     = Some ''33333333-3333-4333-8333-333333333333''"
    by (simp add: login_def found hash example_password_verifies fields Let_def
        refresh_subject_def create_refresh_token_def token_subject_def)
  have l3: "access_subject (Inr (refresh_access_token example_env 0
       ''22222222-2222-4222-8222-222222222222'' [example_user]
       (create_refresh_token 0 (user_id example_user))))
     = Some ''22222222-2222-4222-8222-222222222222''"
    by (simp add: refresh_access_token_def decode_token_def example_env_def
        create_refresh_token_def create_access_token_def query_first_def fields Let_def
        access_subject_def token_subject_def)
  have l4: "str_of (user_id example_user) = ''11111111-1111-4111-8111-111111111111''"
    by (simp add: fields)
  have l5: "get_current_user example_env [example_user]
       (create_access_token 0 (IdUUID ''22222222-2222-4222-8222-222222222222'')
          ''user@example.com'' ''user'' None)
     = Inl (HTTPException 401 ''User not found'' [(''WWW-Authenticate'', ''Bearer'')])"
    by (simp add: get_current_user_def decode_token_def example_env_def
        create_access_token_def query_first_def fields Let_def HTTP_401_UNAUTHORIZED_def)
  show ?thesis using l1 l2 l3 l4 l5 by blast
qed

section \<open>Password verification\<close>

text \<open>
  Claim C2, as stated: \<open>verify_password\<close> returns a boolean for every password and every
  hash and never raises. It fails: the function has no handler, so a hash that
  \<open>bcrypt.checkpw\<close> rejects raises \<open>ValueError\<close>, and a lone surrogate in either string
  raises \<open>UnicodeEncodeError\<close> before \<open>bcrypt\<close> is reached.
\<close>

theorem verify_password_raises_counterexample:
  "verify_password example_env example_password [110, 111, 116, 45, 97, 45, 104, 97, 115, 104]
     = Inl ValueError \<and>
   verify_password example_env [55296] example_hash = Inl UnicodeEncodeError"
proof
  have "encode_utf8 [110, 111, 116, 45, 97, 45, 104, 97, 115, 104]
          = Inr [110, 111, 116, 45, 97, 45, 104, 97, 115, 104]"
    by (simp add: encode_utf8_def is_surrogate_def utf8_char_def)
  then show "verify_password example_env example_password
               [110, 111, 116, 45, 97, 45, 104, 97, 115, 104] = Inl ValueError"
    by (simp add: verify_password_def example_password_encodes example_env_def
        example_checkpw_def example_prefix_def)
next
  have "encode_utf8 [55296] = Inl UnicodeEncodeError"
    by (simp add: encode_utf8_def is_surrogate_def)
  then show "verify_password example_env [55296] example_hash = Inl UnicodeEncodeError"
    by (simp add: verify_password_def)
qed

text \<open>
  Claim C2, amended: \<open>verify_password\<close> returns a boolean exactly when both strings
  encode to UTF-8 and \<open>bcrypt.checkpw\<close> returns one on the encoded bytes, and then it is
  that boolean; it raises exactly the error of the first of the two encodings or of
  \<open>checkpw\<close> that raises.
\<close>

theorem verify_password_propagates:
  "(verify_password E p h = Inr b \<longleftrightarrow>
      (\<exists>pb hb. encode_utf8 p = Inr pb \<and> encode_utf8 h = Inr hb \<and> checkpw E pb hb = Inr b)) \<and>
   (verify_password E p h = Inl e \<longleftrightarrow>
      encode_utf8 p = Inl e \<or>
      (\<exists>pb. encode_utf8 p = Inr pb \<and> encode_utf8 h = Inl e) \<or>
      (\<exists>pb hb. encode_utf8 p = Inr pb \<and> encode_utf8 h = Inr hb \<and> checkpw E pb hb = Inl e))"
  by (auto simp: verify_password_def split: sum.splits)

theorem verify_password_propagates_witness:
  "verify_password example_env example_password example_hash = Inr True"
  using verify_password_propagates [of example_env example_password example_hash True ValueError]
  by (simp add: example_password_encodes example_hash_encodes example_env_def
      example_checkpw_hash)

section \<open>Login failures\<close>

text \<open>
  Claim C3, as stated: any login with an e-mail that matches no stored principal and any
  login with an existing e-mail and a wrong password return identical failures. It
  fails: for an unknown e-mail the password is never looked at, while for an existing
  e-mail \<open>login\<close> calls \<open>verify_password\<close> and has no handler around it. With the
  password consisting of a lone surrogate, the unknown e-mail gets the generic failure
  and the existing e-mail gets \<open>UnicodeEncodeError\<close>.
\<close>

theorem login_wrong_password_raises_counterexample:
  "fst (login example_env 0 ''a'' ''b'' [example_user] ''nobody@example.com'' [55296])
     = Inr (failure ''Invalid email or password'') \<and>
   fst (login example_env 0 ''a'' ''b'' [example_user] ''user@example.com'' [55296])
     = Inl UnicodeEncodeError"
proof
  show "fst (login example_env 0 ''a'' ''b'' [example_user] ''nobody@example.com'' [55296])
          = Inr (failure ''Invalid email or password'')"
    by (simp add: login_def example_queries)
next
  have "encode_utf8 [55296] = Inl UnicodeEncodeError"
    by (simp add: encode_utf8_def is_surrogate_def)
  then have "verify_password example_env [55296] (password_hash example_user)
               = Inl UnicodeEncodeError"
    by (simp add: verify_password_def)
  then show "fst (login example_env 0 ''a'' ''b'' [example_user] ''user@example.com'' [55296])
               = Inl UnicodeEncodeError"
    by (simp add: login_def example_queries)
qed

text \<open>
  Claim C3, amended: a login with an e-mail that matches no stored principal returns
  the failure \<open>Invalid email or password\<close> and leaves the session as it is. A login
  with an existing e-mail returns that same failure when \<open>verify_password\<close> answers
  false, and raises what \<open>verify_password\<close> raises when it raises. The two results
  are identical exactly when \<open>verify_password\<close> answers false.
\<close>

theorem login_unknown_email_vs_wrong_password:
  assumes "query_first (\<lambda>u. email u = em1) db1 = None"
    and "query_first (\<lambda>u. email u = em2) db2 = Some u"
  shows "login E1 t1 a1 b1 db1 em1 pw1 = (Inr (failure ''Invalid email or password''), db1) \<and>
         (verify_password E2 pw2 (password_hash u) = Inr False \<longrightarrow>
            login E2 t2 a2 b2 db2 em2 pw2 = (Inr (failure ''Invalid email or password''), db2)) \<and>
         (verify_password E2 pw2 (password_hash u) = Inl e \<longrightarrow>
            login E2 t2 a2 b2 db2 em2 pw2 = (Inl e, db2)) \<and>
         (fst (login E1 t1 a1 b1 db1 em1 pw1) = fst (login E2 t2 a2 b2 db2 em2 pw2)
            \<longleftrightarrow> verify_password E2 pw2 (password_hash u) = Inr False)"
  using assms by (auto simp: login_def failure_def Let_def split: sum.splits)

theorem login_unknown_email_vs_wrong_password_witness:
  "fst (login example_env 0 ''a'' ''b'' [example_user] ''nobody@example.com'' example_password)
     = fst (login example_env 9 ''c'' ''d'' [example_user] ''user@example.com''
              [87, 114, 111, 110, 103]) \<and>
   fst (login example_env 0 ''a'' ''b'' [example_user] ''nobody@example.com'' [55296])
     \<noteq> fst (login example_env 9 ''c'' ''d'' [example_user] ''user@example.com'' [55296]) \<and>
   login example_env 9 ''c'' ''d'' [example_user] ''user@example.com'' [55296]
     = (Inl UnicodeEncodeError, [example_user])"
proof -
  have e: "encode_utf8 [87, 114, 111, 110, 103] = Inr [87, 114, 111, 110, 103]"
    by (simp add: encode_utf8_def is_surrogate_def utf8_char_def)
  have h: "password_hash example_user = example_hash"
    by (simp add: example_user_def)
  have c: "example_checkpw [87, 114, 111, 110, 103] example_hash = Inr False"
    by (simp add: example_checkpw_def example_hash_def example_prefix_def example_password_def)
  have wrong: "verify_password example_env [87, 114, 111, 110, 103] (password_hash example_user)
                 = Inr False"
    by (simp add: verify_password_def e h example_hash_encodes example_env_fields c)
  have s: "encode_utf8 [55296] = Inl UnicodeEncodeError"
    by (simp add: encode_utf8_def is_surrogate_def)
  have raises: "verify_password example_env [55296] (password_hash example_user)
                  = Inl UnicodeEncodeError"
    by (simp add: verify_password_def s)
  show ?thesis
    using login_unknown_email_vs_wrong_password
        [OF example_queries(3) example_queries(1),
          where ?E1.0 = example_env and ?t1.0 = 0 and ?a1.0 = "''a''" and ?b1.0 = "''b''"
            and ?pw1.0 = example_password and ?E2.0 = example_env and ?t2.0 = 9
            and ?a2.0 = "''c''" and ?b2.0 = "''d''" and ?pw2.0 = "[87, 114, 111, 110, 103]"
            and ?e = ValueError]
      login_unknown_email_vs_wrong_password
        [OF example_queries(3) example_queries(1),
          where ?E1.0 = example_env and ?t1.0 = 0 and ?a1.0 = "''a''" and ?b1.0 = "''b''"
            and ?pw1.0 = "[55296]" and ?E2.0 = example_env and ?t2.0 = 9
            and ?a2.0 = "''c''" and ?b2.0 = "''d''" and ?pw2.0 = "[55296]"
            and ?e = UnicodeEncodeError]
      wrong raises
    by simp
qed

text \<open>
  Claim C6: when the password verifies and the e-mail is verified but the account is
  not active, the outcome is that of the gate that asks banned, then suspended, then
  the generic case, and the three messages differ. (The source asks suspended before
  banned; a status is one value, so both orders give the same result on every status.)
\<close>

theorem login_status_gate_order:
  assumes "query_first (\<lambda>u. email u = em) db = Some u"
    and "verify_password E pw (password_hash u) = Inr True"
    and "email_verified u"
    and "status u \<noteq> ''active''"
  shows "login E now f1 f2 db em pw = (Inr (failure (status_gate_spec (status u))), db) \<and>
         status_gate_spec ''banned'' \<noteq> status_gate_spec ''suspended'' \<and>
         status_gate_spec ''banned'' \<noteq> status_gate_spec ''pending'' \<and>
         status_gate_spec ''suspended'' \<noteq> status_gate_spec ''pending''"
  using assms by (simp add: login_def status_gate_spec_def)

theorem login_status_gate_order_witness:
  "login example_env 0 ''a'' ''b'' [example_user\<lparr>status := ''banned''\<rparr>] ''user@example.com''
       example_password
     = (Inr (failure ''Your account has been banned.''), [example_user\<lparr>status := ''banned''\<rparr>]) \<and>
   login example_env 0 ''a'' ''b'' [example_user\<lparr>status := ''suspended''\<rparr>] ''user@example.com''
       example_password
     = (Inr (failure ''Your account has been suspended. Please contact support.''),
        [example_user\<lparr>status := ''suspended''\<rparr>]) \<and>
   login example_env 0 ''a'' ''b'' [example_user\<lparr>status := ''pending''\<rparr>] ''user@example.com''
       example_password
     = (Inr (failure ''Your account is not active. Please verify your email.''),
        [example_user\<lparr>status := ''pending''\<rparr>])"
proof -
  have q: "query_first (\<lambda>u. email u = ''user@example.com'') [example_user\<lparr>status := s\<rparr>]
             = Some (example_user\<lparr>status := s\<rparr>)" for s
    by (simp add: query_first_def example_user_def)
  have v: "verify_password example_env example_password
             (password_hash (example_user\<lparr>status := s\<rparr>)) = Inr True" for s
    using example_password_verifies by (simp add: example_user_def)
  have m: "email_verified (example_user\<lparr>status := s\<rparr>)" for s
    by (simp add: example_user_def)
  show ?thesis
    using login_status_gate_order [OF q v m, of "''banned''" 0 "''a''" "''b''"]
      login_status_gate_order [OF q v m, of "''suspended''" 0 "''a''" "''b''"]
      login_status_gate_order [OF q v m, of "''pending''" 0 "''a''" "''b''"]
    by (simp add: status_gate_spec_def)
qed

section \<open>Password policy\<close>

text \<open>
  Claim C4: \<open>validate_password_strength\<close> applies the five rules in the order length,
  uppercase, lowercase, digit, special character, reports the first rule that fails,
  and answers valid exactly when all five hold.
\<close>

theorem validate_password_strength_first_failure:
  "validate_password_strength E p =
     (case first_failure_spec (policy_rules_spec E) p of
        Some msg \<Rightarrow> \<lparr>valid = False, vmessage = msg\<rparr>
      | None \<Rightarrow> \<lparr>valid = True, vmessage = ''Password is strong''\<rparr>) \<and>
   (valid (validate_password_strength E p) \<longleftrightarrow>
      (\<forall>(ok, msg) \<in> set (policy_rules_spec E). ok p))"
  unfolding validate_password_strength_def re_search_iff re_upper_def re_lower_def
    re_digit_def re_special_def policy_rules_spec_def
  by (simp add: not_less)

theorem validate_password_strength_first_failure_witness:
  "validate_password_strength example_env [115, 104, 111, 114, 116, 49]
     = \<lparr>valid = False, vmessage = ''Password must be at least 12 characters long''\<rparr> \<and>
   validate_password_strength example_env
       [97, 108, 108, 108, 111, 119, 101, 114, 99, 97, 115, 101, 49, 50, 51, 33]
     = \<lparr>valid = False, vmessage = ''Password must contain at least one uppercase letter''\<rparr> \<and>
   valid (validate_password_strength example_env example_password)"
  using validate_password_strength_first_failure [of example_env "[115, 104, 111, 114, 116, 49]"]
    validate_password_strength_first_failure [of example_env
       "[97, 108, 108, 108, 111, 119, 101, 114, 99, 97, 115, 101, 49, 50, 51, 33]"]
    validate_password_strength_first_failure [of example_env example_password]
  by (simp add: policy_rules_spec_def example_password_def example_env_def
      SPECIAL_CHARACTERS_def)

section \<open>Registration\<close>

text \<open>
  Claim C5: the age is the difference of the years, less one exactly when today's
  (month, day) is before the birth (month, day). So registration, once the e-mail is
  new and the password valid, fails the age check for the date of birth one day after
  the date eighteen years before today, and fails it exactly for the dates of birth
  after that date: one born on or before it passes.
\<close>

theorem register_user_age_boundary:
  assumes "query_first (\<lambda>u. email u = em) db = None"
    and "valid (validate_password_strength E pw)"
    and "fromisoformat E date_of_birth = Inr dob"
  shows "calculate_age today dob =
           year today - year dob -
             (if month today < month dob \<or> (month today = month dob \<and> day today < day dob)
              then 1 else 0) \<and>
         (dob = next_day (years_before MINIMUM_AGE today) \<longrightarrow>
            register_user E today fresh db em pw date_of_birth st =
              (Inr (failure ''You must be at least 18 years old to register''), db)) \<and>
         (fst (register_user E today fresh db em pw date_of_birth st) =
              Inr (failure ''You must be at least 18 years old to register'')
            \<longleftrightarrow> \<not> date_tuple dob \<le> date_tuple (years_before MINIMUM_AGE today))"
proof -
  have age: "calculate_age today dob =
           year today - year dob -
             (if month today < month dob \<or> (month today = month dob \<and> day today < day dob)
              then 1 else 0)"
    by (simp add: calculate_age_def Let_def)
  have a: "dob = next_day (years_before MINIMUM_AGE today) \<Longrightarrow>
            register_user E today fresh db em pw date_of_birth st =
              (Inr (failure ''You must be at least 18 years old to register''), db)"
    using assms calculate_age_next_day [of today] by (simp add: register_user_def Let_def)
  have b: "fst (register_user E today fresh db em pw date_of_birth st) =
              Inr (failure ''You must be at least 18 years old to register'')
            \<longleftrightarrow> calculate_age today dob < MINIMUM_AGE"
    using assms by (auto simp: register_user_def Let_def failure_def split: sum.splits)
  show ?thesis
    using age a b calculate_age_minimum [of today dob] by auto
qed

theorem register_user_age_boundary_witness:
  "register_user example_env \<lparr>year = 2024, month = 2, day = 29\<rparr> ''f'' [example_user]
      ''new@example.com'' example_password ''2006-03-01'' ''TX''
     = (Inr (failure ''You must be at least 18 years old to register''), [example_user]) \<and>
   fst (register_user example_env \<lparr>year = 2024, month = 2, day = 29\<rparr> ''f'' [example_user]
      ''new@example.com'' example_password ''2006-02-28'' ''TX'')
     \<noteq> Inr (failure ''You must be at least 18 years old to register'')"
proof -
  have d1: "fromisoformat example_env ''2006-03-01'' = Inr \<lparr>year = 2006, month = 3, day = 1\<rparr>"
    and d2: "fromisoformat example_env ''2006-02-28'' = Inr \<lparr>year = 2006, month = 2, day = 28\<rparr>"
    by (simp_all add: example_env_fields example_dates)
  have n: "\<lparr>year = 2006, month = 3, day = 1\<rparr>
             = next_day (years_before MINIMUM_AGE \<lparr>year = 2024, month = 2, day = 29\<rparr>)"
    by (simp add: next_day_def years_before_def MINIMUM_AGE_def days_in_month_def is_leap_def)
  have l: "date_tuple \<lparr>year = 2006, month = 2, day = 28\<rparr>
             \<le> date_tuple (years_before MINIMUM_AGE \<lparr>year = 2024, month = 2, day = 29\<rparr>)"
    by (simp add: date_tuple_def years_before_def MINIMUM_AGE_def)
  show ?thesis
    using register_user_age_boundary [OF example_queries(2) example_password_valid d1,
        of "\<lparr>year = 2024, month = 2, day = 29\<rparr>" "''f''" "''TX''"]
      register_user_age_boundary [OF example_queries(2) example_password_valid d2,
        of "\<lparr>year = 2024, month = 2, day = 29\<rparr>" "''f''" "''TX''"]
      n l
    by simp
qed

text \<open>
  Claim C10: on every input on which a validation of \<open>register_user\<close> fails, the
  failure result of that validation is returned and the session is the one given:
  an e-mail that is already stored; a new e-mail with a password that the policy
  rejects; then a date of birth that gives an age below eighteen; then a state whose
  upper case is on the deny-list. The checks are made in this order, each reached when
  the ones before it pass. Moreover, whatever the input, an outcome that is not a
  success (a failure result, or an exception of \<open>date.fromisoformat\<close> or of
  \<open>hash_password\<close>) comes with the session unchanged, and a failure result is never a
  success.
\<close>

theorem register_user_failure_leaves_session:
  "(query_first (\<lambda>u. email u = em) db = Some existing \<longrightarrow>
      register_user E today fresh db em pw date_of_birth st
        = (Inr (failure ''Email address already exists''), db)) \<and>
   (query_first (\<lambda>u. email u = em) db = None \<and>
    \<not> valid (validate_password_strength E pw) \<longrightarrow>
      register_user E today fresh db em pw date_of_birth st
        = (Inr (failure (vmessage (validate_password_strength E pw))), db)) \<and>
   (query_first (\<lambda>u. email u = em) db = None \<and>
    valid (validate_password_strength E pw) \<and>
    fromisoformat E date_of_birth = Inr dob \<and>
    calculate_age today dob < MINIMUM_AGE \<longrightarrow>
      register_user E today fresh db em pw date_of_birth st
        = (Inr (failure ''You must be at least 18 years old to register''), db)) \<and>
   (query_first (\<lambda>u. email u = em) db = None \<and>
    valid (validate_password_strength E pw) \<and>
    fromisoformat E date_of_birth = Inr dob \<and>
    \<not> calculate_age today dob < MINIMUM_AGE \<and>
    upper E st \<in> INELIGIBLE_STATES \<longrightarrow>
      register_user E today fresh db em pw date_of_birth st
        = (Inr (failure (''Registration is not available in '' @ st @ '' at this time'')), db)) \<and>
   (register_user E today fresh db em pw date_of_birth st = (r, db') \<and>
    (\<forall>res. r = Inr res \<longrightarrow> \<not> success res) \<longrightarrow> db' = db) \<and>
   \<not> success (failure m)"
proof -
  have unchanged: "register_user E today fresh db em pw date_of_birth st = (r, db') \<and>
    (\<forall>res. r = Inr res \<longrightarrow> \<not> success res) \<longrightarrow> db' = db"
    by (auto simp: register_user_def Let_def failure_def
        split: option.splits sum.splits if_splits)
  show ?thesis
    using unchanged by (simp add: register_user_def Let_def failure_def)
qed

theorem register_user_failure_leaves_session_witness:
  "register_user example_env \<lparr>year = 2024, month = 2, day = 29\<rparr> ''f'' [example_user]
          ''user@example.com'' example_password ''1990-01-15'' ''TX''
     = (Inr (failure ''Email address already exists''), [example_user]) \<and>
   register_user example_env \<lparr>year = 2024, month = 2, day = 29\<rparr> ''f'' [example_user]
          ''new@example.com'' [119, 101, 97, 107] ''1990-01-15'' ''TX''
     = (Inr (failure ''Password must be at least 12 characters long''), [example_user]) \<and>
   register_user example_env \<lparr>year = 2024, month = 2, day = 29\<rparr> ''f'' [example_user]
          ''new@example.com'' example_password ''2010-01-15'' ''TX''
     = (Inr (failure ''You must be at least 18 years old to register''), [example_user]) \<and>
   register_user example_env \<lparr>year = 2024, month = 2, day = 29\<rparr> ''f'' [example_user]
          ''new@example.com'' example_password ''1990-01-15'' ''ny''
     = (Inr (failure ''Registration is not available in ny at this time''), [example_user]) \<and>
   snd (register_user example_env \<lparr>year = 2024, month = 2, day = 29\<rparr> ''f'' [example_user]
          ''new@example.com'' example_password ''not-a-date'' ''ny'') = [example_user]"
proof -
  let ?today = "\<lparr>year = 2024, month = 2, day = 29\<rparr>"
  let ?reg = "register_user example_env ?today ''f'' [example_user]"
  have weak: "validate_password_strength example_env [119, 101, 97, 107]
                = \<lparr>valid = False, vmessage = ''Password must be at least 12 characters long''\<rparr>"
    by (simp add: validate_password_strength_def)
  have d1: "fromisoformat example_env ''1990-01-15'' = Inr \<lparr>year = 1990, month = 1, day = 15\<rparr>"
    and d2: "fromisoformat example_env ''2010-01-15'' = Inr \<lparr>year = 2010, month = 1, day = 15\<rparr>"
    by (simp_all add: example_env_fields example_dates)
  have d3: "fromisoformat example_env ''not-a-date'' = Inl ValueError"
    by (simp add: example_env_fields example_fromisoformat_def)
  have young: "calculate_age ?today \<lparr>year = 2010, month = 1, day = 15\<rparr> < MINIMUM_AGE"
    and old: "\<not> calculate_age ?today \<lparr>year = 1990, month = 1, day = 15\<rparr> < MINIMUM_AGE"
    by (simp_all add: calculate_age_def MINIMUM_AGE_def)
  have ny: "upper example_env ''ny'' \<in> INELIGIBLE_STATES"
    by (simp add: example_env_fields example_upper INELIGIBLE_STATES_def)
  have raised: "fst (?reg ''new@example.com'' example_password ''not-a-date'' ''ny'')
                  = Inl ValueError"
    by (simp add: register_user_def example_queries example_password_valid d3)
  have a: "?reg ''user@example.com'' example_password ''1990-01-15'' ''TX''
             = (Inr (failure ''Email address already exists''), [example_user])"
    using register_user_failure_leaves_session
        [where ?em = "''user@example.com''" and ?db = "[example_user]"
           and ?existing = example_user and ?E = example_env and ?today = ?today
           and ?fresh = "''f''" and ?pw = example_password
           and ?date_of_birth = "''1990-01-15''" and ?st = "''TX''"]
      example_queries(1)
    by simp
  have b: "?reg ''new@example.com'' [119, 101, 97, 107] ''1990-01-15'' ''TX''
             = (Inr (failure ''Password must be at least 12 characters long''), [example_user])"
    using register_user_failure_leaves_session
        [where ?em = "''new@example.com''" and ?db = "[example_user]"
           and ?E = example_env and ?today = ?today
           and ?fresh = "''f''" and ?pw = "[119, 101, 97, 107]"
           and ?date_of_birth = "''1990-01-15''" and ?st = "''TX''"]
      example_queries(2) weak
    by simp
  have c: "?reg ''new@example.com'' example_password ''2010-01-15'' ''TX''
             = (Inr (failure ''You must be at least 18 years old to register''), [example_user])"
    using register_user_failure_leaves_session
        [where ?em = "''new@example.com''" and ?db = "[example_user]"
           and ?E = example_env and ?today = ?today
           and ?fresh = "''f''" and ?pw = example_password
           and ?date_of_birth = "''2010-01-15''" and ?st = "''TX''"
           and ?dob = "\<lparr>year = 2010, month = 1, day = 15\<rparr>"]
      example_queries(2) example_password_valid d2 young
    by simp
  have d: "?reg ''new@example.com'' example_password ''1990-01-15'' ''ny''
             = (Inr (failure ''Registration is not available in ny at this time''), [example_user])"
    using register_user_failure_leaves_session
        [where ?em = "''new@example.com''" and ?db = "[example_user]"
           and ?E = example_env and ?today = ?today
           and ?fresh = "''f''" and ?pw = example_password
           and ?date_of_birth = "''1990-01-15''" and ?st = "''ny''"
           and ?dob = "\<lparr>year = 1990, month = 1, day = 15\<rparr>"]
      example_queries(2) example_password_valid d1 old ny
    by simp
  have e: "snd (?reg ''new@example.com'' example_password ''not-a-date'' ''ny'') = [example_user]"
    using register_user_failure_leaves_session
        [where ?em = "''new@example.com''" and ?db = "[example_user]"
           and ?E = example_env and ?today = ?today
           and ?fresh = "''f''" and ?pw = example_password
           and ?date_of_birth = "''not-a-date''" and ?st = "''ny''"
           and ?r = "Inl ValueError"
           and ?db' = "snd (?reg ''new@example.com'' example_password ''not-a-date'' ''ny'')"]
      raised
    by (simp add: prod_eq_iff)
  show ?thesis
    using a b c d e by simp
qed

lemma register_user_success_adds:
  "register_user example_env \<lparr>year = 2024, month = 2, day = 29\<rparr> ''f'' [example_user]
      ''new@example.com'' example_password ''1990-01-15'' ''TX''
   = (Inr \<lparr>success = True,
            message = ''User registered successfully. Please verify your email.'',
            result_user_id = Some (IdStr ''f''), result_email = Some ''new@example.com'',
            access_token = None, refresh_token = None, result_user = None\<rparr>,
      [example_user,
       \<lparr>user_id = IdStr ''f'', email = ''new@example.com'', password_hash = example_hash,
        email_verified = False, email_verified_at = None, status = ''pending'',
        role = ''user'', premium_expires_at = None, point_balance = 0,
        last_login_at = None\<rparr>])"
  by (simp add: register_user_def example_queries example_password_valid example_env_fields
        example_dates calculate_age_def MINIMUM_AGE_def example_upper INELIGIBLE_STATES_def
        hash_password_def example_password_encodes example_hashpw_def example_hash_def add_def)

section \<open>Account state\<close>

text \<open>
  Claim C7: \<open>verify_email\<close> makes a pending account active and leaves every other
  status as it is; the status changes if and only if it was pending, and an active
  account stays active however often it is verified.
\<close>

theorem verify_email_status:
  "(status u = ''pending'' \<longrightarrow> status (verify_email now u) = ''active'') \<and>
   (status u \<noteq> ''pending'' \<longrightarrow> status (verify_email now u) = status u) \<and>
   (status (verify_email now u) \<noteq> status u \<longleftrightarrow> status u = ''pending'') \<and>
   (status u = ''active'' \<longrightarrow> status (verify_email now (verify_email now u)) = ''active'')"
  by (simp add: verify_email_def Let_def)

theorem verify_email_status_witness:
  "status (verify_email 7 (example_user\<lparr>status := ''pending''\<rparr>)) = ''active'' \<and>
   status (verify_email 7 example_user) = ''active'' \<and>
   status (verify_email 7 (example_user\<lparr>status := ''suspended''\<rparr>)) = ''suspended'' \<and>
   status (verify_email 7 (example_user\<lparr>status := ''banned''\<rparr>)) = ''banned''"
  using verify_email_status [of "example_user\<lparr>status := ''pending''\<rparr>" 7]
    verify_email_status [of example_user 7]
    verify_email_status [of "example_user\<lparr>status := ''suspended''\<rparr>" 7]
    verify_email_status [of "example_user\<lparr>status := ''banned''\<rparr>" 7]
  by (simp add: example_user_def)

section \<open>Role gates\<close>

text \<open>
  Claim C8: \<open>get_current_admin\<close> behaves as \<open>require_role("admin")\<close>: it accepts the same
  principals and rejects with the same error. The docstring of \<open>get_current_admin\<close>
  calls it a convenience wrapper around \<open>require_role("admin")\<close>, but its body is a
  second copy of the test with its own \<open>HTTPException\<close>. Run on the example principal,
  whose role is \<open>user\<close>, the two raise errors with the same status code and different
  details, so a caller tells them apart.
\<close>

theorem get_current_admin_differs_from_require_role_admin:
  "get_current_admin example_user = Inl (HTTPException 403 ''Admin access required'' []) \<and>
   require_role [''admin''] example_user
     = Inl (HTTPException 403 ''Insufficient permissions. Required role: admin'' [])"
  by (simp add: get_current_admin_def require_role_def example_user_def HTTP_403_FORBIDDEN_def)

text \<open>
  What the two gates share: they accept the same principals, return the accepted
  principal unchanged, and reject with the status code 403. They differ on every
  principal that they reject.
\<close>

lemma role_gates_accept_alike:
  "(get_current_admin u = Inr u') = (require_role [''admin''] u = Inr u') \<and>
   map_sum status_code id (get_current_admin u)
     = map_sum status_code id (require_role [''admin''] u) \<and>
   (role u = ''admin'' \<longrightarrow> get_current_admin u = Inr u \<and> require_role [''admin''] u = Inr u) \<and>
   (role u \<noteq> ''admin'' \<longrightarrow>
      map_sum status_code id (get_current_admin u) = Inl (Some HTTP_403_FORBIDDEN) \<and>
      map_sum status_code id (require_role [''admin''] u) = Inl (Some HTTP_403_FORBIDDEN))"
  by (simp add: get_current_admin_def require_role_def)

lemma role_gates_reject_differently:
  "role u \<noteq> ''admin'' \<Longrightarrow> get_current_admin u \<noteq> require_role [''admin''] u"
  by (simp add: get_current_admin_def require_role_def)

section \<open>Token lifetimes\<close>

text \<open>
  Claim C9: an access token with the default lifetime of 30 minutes and a refresh
  token (7 days) created at the same instant: the refresh token expires strictly later.
\<close>

theorem refresh_expiry_exceeds_access_expiry:
  "exp (create_access_token now uid em rl None) < exp (create_refresh_token now uid')"
  by (simp add: create_access_token_def create_refresh_token_def timedelta_minutes_def
      timedelta_days_def ACCESS_TOKEN_EXPIRE_MINUTES_def REFRESH_TOKEN_EXPIRE_DAYS_def)

end
